theory Spec2Isabelle
  imports Main "HOL-Library.Char_ord" "HOL-Library.List_Lexorder" "HOL-Library.AList"
begin

section \<open>Python values, errors and the string primitives the module uses\<close>

text \<open>
  The module \<^verbatim>\<open>calval/normalized_scene.py\<close> raises no exception of its own: every
  failure is an exception of the Python runtime or the standard library. Each one the
  modelled code can meet is a constructor of \<open>error\<close>; a fallible operation returns
  \<open>error + 'a\<close> with \<open>Inl\<close> for the raised exception.
\<close>

datatype error = TypeError | ValueError | AssertionError | AttributeError | OSError

text \<open>
  A \<^verbatim>\<open>datetime.datetime\<close> (naive). Python only ever builds values with
  \<open>1 \<le> year \<le> 9999\<close>, a month in \<open>1..12\<close>, a day that exists in that month,
  \<open>hour < 24\<close>, \<open>minute < 60\<close>, \<open>second < 60\<close> and \<open>microsecond < 1000000\<close>;
  \<open>valid_datetime\<close> is that invariant.
\<close>

record datetime =
  year :: nat
  month :: nat
  day :: nat
  hour :: nat
  minute :: nat
  second :: nat
  microsecond :: nat

definition is_leap :: "nat \<Rightarrow> bool" where
  "is_leap y \<longleftrightarrow> y mod 4 = 0 \<and> (y mod 100 \<noteq> 0 \<or> y mod 400 = 0)"

definition days_in_month :: "nat \<Rightarrow> nat \<Rightarrow> nat" where
  "days_in_month y m =
     (if m = 2 then (if is_leap y then 29 else 28)
      else if m = 4 \<or> m = 6 \<or> m = 9 \<or> m = 11 then 30 else 31)"

definition valid_datetime :: "datetime \<Rightarrow> bool" where
  "valid_datetime d \<longleftrightarrow>
     1 \<le> year d \<and> year d \<le> 9999 \<and> 1 \<le> month d \<and> month d \<le> 12 \<and>
     1 \<le> day d \<and> day d \<le> days_in_month (year d) (month d) \<and>
     hour d < 24 \<and> minute d < 60 \<and> second d < 60 \<and> microsecond d < 1000000"

text \<open>
  The field values of an identity: the spec's data model has plain strings and
  timestamps, and these are the two kinds \<^verbatim>\<open>_tostr\<close> tells apart
  (\<^verbatim>\<open>hasattr(x, 'strftime')\<close>).
\<close>

datatype pyval = Str string | DateTime datetime

subsection \<open>Decimal digits\<close>

definition digit_char :: "nat \<Rightarrow> char" where
  "digit_char n = ''0123456789'' ! (n mod 10)"

text \<open>The value of a decimal digit: its position in \<^verbatim>\<open>0123456789\<close>.\<close>

definition digit_val :: "char \<Rightarrow> nat" where
  "digit_val c = (case map_of (zip ''0123456789'' [0, 1, 2, 3, 4, 5, 6, 7, 8, 9]) c of
                    Some v \<Rightarrow> v
                  | None \<Rightarrow> 0)"

text \<open>\<^verbatim>\<open>'%d' % n\<close>: the decimal digits of \<open>n\<close>, most significant first.\<close>

fun decimal :: "nat \<Rightarrow> string" where
  "decimal n = (if n < 10 then [digit_char n] else decimal (n div 10) @ [digit_char n])"

declare decimal.simps [simp del]

text \<open>\<^verbatim>\<open>'%0wd' % n\<close>: the digits, filled with zeros on the left up to width \<open>w\<close>.\<close>

definition zero_pad :: "nat \<Rightarrow> nat \<Rightarrow> string" where
  "zero_pad w n = replicate (w - length (decimal n)) CHR ''0'' @ decimal n"

text \<open>
  \<^verbatim>\<open>int(s)\<close> on the text of a regex group of \<^verbatim>\<open>strptime\<close>: digits, after
  the leading blank the day group may hold (\<^verbatim>\<open>int\<close> strips white space).
\<close>

definition py_int :: "string \<Rightarrow> nat" where
  "py_int s = foldl (\<lambda>a c. 10 * a + digit_val c) 0 (dropWhile (\<lambda>c. c = CHR '' '') s)"

subsection \<open>\<^verbatim>\<open>strftime\<close> and \<^verbatim>\<open>strptime\<close> with the format \<^verbatim>\<open>%Y%m%d%H%M\<close>\<close>

text \<open>
  \<^verbatim>\<open>x.strftime('%Y%m%d%H%M')\<close>. CPython hands the format to the C library, and
  glibc prints \<^verbatim>\<open>%Y\<close> as the plain decimal number, without padding: four digits
  from the year 1000 on, fewer before (the year 999 prints as \<^verbatim>\<open>999\<close>). Month, day,
  hour and minute are printed on two digits each. Seconds and microseconds are not
  printed.
\<close>

definition strftime :: "datetime \<Rightarrow> string" where
  "strftime d =
     decimal (year d) @ zero_pad 2 (month d) @ zero_pad 2 (day d) @
     zero_pad 2 (hour d) @ zero_pad 2 (minute d)"

text \<open>
  \<^verbatim>\<open>datetime.strptime\<close> compiles the format into the regular expression
  \<^verbatim>\<open>(\d\d\d\d)(1[0-2]|0[1-9]|[1-9])(3[0-1]|[1-2]\d|0[1-9]|[1-9]| [1-9])(2[0-3]|[0-1]\d|\d)([0-5]\d|\d)\<close>
  and matches it at the start of the string with a backtracking matcher. A matcher is
  modelled as the list of its matches (matched text, remaining input) in the order the
  backtracking tries them: a character class has at most one, an alternative lists the
  matches of its left branch first, a sequence tries every continuation of a match of
  its first part before moving on to the next one.
\<close>

type_synonym matcher = "string \<Rightarrow> (string \<times> string) list"

definition one_of :: "string \<Rightarrow> matcher" where
  "one_of cs s = (case s of [] \<Rightarrow> [] | c # r \<Rightarrow> if c \<in> set cs then [([c], r)] else [])"

definition re_seq :: "matcher \<Rightarrow> matcher \<Rightarrow> matcher" where
  "re_seq p q s = concat (map (\<lambda>(x, r). map (\<lambda>(y, r'). (x @ y, r')) (q r)) (p s))"

definition re_alt :: "matcher \<Rightarrow> matcher \<Rightarrow> matcher" where
  "re_alt p q s = p s @ q s"

definition re_digit :: matcher where
  "re_digit = one_of ''0123456789''"

definition re_Y :: matcher where
  "re_Y = re_seq re_digit (re_seq re_digit (re_seq re_digit re_digit))"

definition re_m :: matcher where
  "re_m = re_alt (re_seq (one_of ''1'') (one_of ''012''))
         (re_alt (re_seq (one_of ''0'') (one_of ''123456789'')) (one_of ''123456789''))"

definition re_d :: matcher where
  "re_d = re_alt (re_seq (one_of ''3'') (one_of ''01''))
         (re_alt (re_seq (one_of ''12'') re_digit)
         (re_alt (re_seq (one_of ''0'') (one_of ''123456789''))
         (re_alt (one_of ''123456789'') (re_seq (one_of '' '') (one_of ''123456789'')))))"

definition re_H :: matcher where
  "re_H = re_alt (re_seq (one_of ''2'') (one_of ''0123''))
         (re_alt (re_seq (one_of ''01'') re_digit) re_digit)"

definition re_M :: matcher where
  "re_M = re_alt (re_seq (one_of ''012345'') re_digit) re_digit"

text \<open>
  All matches of the five groups in a row, first one first: the groups' texts and the
  input left after the minute group.
\<close>

definition timestamp_matches :: "string \<Rightarrow> (string list \<times> string) list" where
  "timestamp_matches s =
     concat (map (\<lambda>(gY, r1).
     concat (map (\<lambda>(gm, r2).
     concat (map (\<lambda>(gd, r3).
     concat (map (\<lambda>(gH, r4).
             map (\<lambda>(gM, r5). ([gY, gm, gd, gH, gM], r5)) (re_M r4))
       (re_H r3))) (re_d r2))) (re_m r1))) (re_Y s))"

text \<open>
  \<^verbatim>\<open>datetime.strptime(s, '%Y%m%d%H%M')\<close>. \<^verbatim>\<open>ValueError\<close> when the expression
  does not match, when the first match leaves input unread (``unconverted data
  remains''), and when the numbers are not a date (year 0, or a day the month does not
  have). Seconds and microseconds of the result are 0.
\<close>

definition strptime :: "string \<Rightarrow> error + datetime" where
  "strptime s =
     (case timestamp_matches s of
        [] \<Rightarrow> Inl ValueError
      | (gs, rest) # _ \<Rightarrow>
          if rest \<noteq> [] then Inl ValueError
          else let y = py_int (gs ! 0); m = py_int (gs ! 1); d = py_int (gs ! 2) in
            if y < 1 \<or> days_in_month y m < d then Inl ValueError
            else Inr \<lparr>year = y, month = m, day = d, hour = py_int (gs ! 3),
                       minute = py_int (gs ! 4), second = 0, microsecond = 0\<rparr>)"

subsection \<open>\<^verbatim>\<open>str.split\<close> and \<^verbatim>\<open>str.join\<close>\<close>

text \<open>
  \<^verbatim>\<open>s.split(sep)\<close> cuts \<open>s\<close> at every occurrence of \<open>sep\<close>, found from the left
  and not overlapping; \<open>acc\<close> holds the current token, reversed. An empty separator
  raises \<^verbatim>\<open>ValueError\<close>.
\<close>

function split_from :: "string \<Rightarrow> string \<Rightarrow> string \<Rightarrow> string list" where
  "split_from sep acc [] = [rev acc]"
| "split_from sep acc (c # cs) =
     (if sep \<noteq> [] \<and> take (length sep) (c # cs) = sep
      then rev acc # split_from sep [] (drop (length sep) (c # cs))
      else split_from sep (c # acc) cs)"
  by pat_completeness auto
termination
  by (relation "measure (\<lambda>(sep, acc, s). length s)") auto

definition str_split :: "string \<Rightarrow> string \<Rightarrow> error + string list" where
  "str_split s sep = (if sep = [] then Inl ValueError else Inr (split_from sep [] s))"

fun str_join :: "string \<Rightarrow> string list \<Rightarrow> string" where
  "str_join sep [] = []"
| "str_join sep [x] = x"
| "str_join sep (x # y # ys) = x @ sep @ str_join sep (y # ys)"

section \<open>Identities: \<^verbatim>\<open>StringableTuple\<close> and its two subclasses\<close>

subsection \<open>The two \<^verbatim>\<open>namedtuple\<close> types\<close>

text \<open>
  A \<^verbatim>\<open>namedtuple\<close> type is its field names and the \<^verbatim>\<open>__defaults__\<close> of its
  constructor, which belong to the last fields. \<^verbatim>\<open>sceneid_params\<close> has the single
  default \<^verbatim>\<open>'0'\<close>, for \<^verbatim>\<open>tag\<close>; \<^verbatim>\<open>scenesetid_params\<close> has none.
\<close>

record namedtuple_type =
  nt_fields :: "string list"
  nt_defaults :: "pyval list"

definition sceneid_params :: namedtuple_type where
  "sceneid_params =
     \<lparr>nt_fields = [''product'', ''satellite'', ''tile_id'', ''timestamp'', ''tag''],
      nt_defaults = [Str ''0'']\<rparr>"

definition scenesetid_params :: namedtuple_type where
  "scenesetid_params =
     \<lparr>nt_fields = [''satellite'', ''tile_id'', ''timestamp''], nt_defaults = []\<rparr>"

text \<open>The default of field number \<open>i\<close>, when it has one.\<close>

definition default_for :: "namedtuple_type \<Rightarrow> nat \<Rightarrow> pyval option" where
  "default_for t i =
     (let off = length (nt_fields t) - length (nt_defaults t)
      in if off \<le> i \<and> i < length (nt_fields t) then Some (nt_defaults t ! (i - off)) else None)"

text \<open>
  The call \<^verbatim>\<open>tuple_type(*args, **kwargs)\<close>. Python binds the positional arguments
  to the first fields, the keyword arguments by name and the defaults to what is left;
  it raises \<^verbatim>\<open>TypeError\<close> for too many positional arguments, for a keyword that is
  not a field, for a field given both ways and for a field left without a value.
  Keyword arguments are an association list (a \<^verbatim>\<open>dict\<close>, in insertion order).
\<close>

definition namedtuple_new ::
  "namedtuple_type \<Rightarrow> pyval list \<Rightarrow> (string \<times> pyval) list \<Rightarrow> error + pyval list" where
  "namedtuple_new t args kwargs =
     (let fs = nt_fields t; n = length fs; k = length args in
      if n < k then Inl TypeError
      else if \<exists>key \<in> set (map fst kwargs). key \<notin> set fs then Inl TypeError
      else if \<exists>key \<in> set (map fst kwargs). key \<in> set (take k fs) then Inl TypeError
      else let rest = map (\<lambda>i. case map_of kwargs (fs ! i) of
                                  Some v \<Rightarrow> Some v
                                | None \<Rightarrow> default_for t i) [k..<n]
        in if None \<in> set rest then Inl TypeError else Inr (args @ map the rest))"

subsection \<open>The class and its instances\<close>

datatype id_class = NormalizedScenesetId | NormalizedSceneId

fun tuple_type :: "id_class \<Rightarrow> namedtuple_type" where
  "tuple_type NormalizedScenesetId = scenesetid_params"
| "tuple_type NormalizedSceneId = sceneid_params"

fun timestamp_fields :: "id_class \<Rightarrow> string set" where
  "timestamp_fields NormalizedScenesetId = {''timestamp''}"
| "timestamp_fields NormalizedSceneId = {''timestamp''}"

text \<open>
  An instance: its class and \<^verbatim>\<open>self.params\<close>, the tuple the constructor built.
\<close>

record StringableTuple =
  cls :: id_class
  params :: "pyval list"

text \<open>\<^verbatim>\<open>__init__(self, *args, **kwargs)\<close>.\<close>

definition StringableTuple_init ::
  "id_class \<Rightarrow> pyval list \<Rightarrow> (string \<times> pyval) list \<Rightarrow> error + StringableTuple" where
  "StringableTuple_init c args kwargs =
     (case namedtuple_new (tuple_type c) args kwargs of
        Inl e \<Rightarrow> Inl e
      | Inr p \<Rightarrow> Inr \<lparr>cls = c, params = p\<rparr>)"

text \<open>
  \<^verbatim>\<open>_fromstr(cls, s, fieldname)\<close>: a token of a timestamp field is parsed, any other is
  kept. \<^verbatim>\<open>strptime\<close> refuses an argument that is not a string with
  \<^verbatim>\<open>TypeError\<close>.
\<close>

definition fromstr :: "id_class \<Rightarrow> pyval \<Rightarrow> string \<Rightarrow> error + pyval" where
  "fromstr c s fieldname =
     (if fieldname \<in> timestamp_fields c
      then (case s of
              Str text \<Rightarrow> (case strptime text of Inl e \<Rightarrow> Inl e | Inr d \<Rightarrow> Inr (DateTime d))
            | DateTime _ \<Rightarrow> Inl TypeError)
      else Inr s)"

text \<open>\<^verbatim>\<open>_tostr(cls, x)\<close>: what has \<^verbatim>\<open>strftime\<close> is formatted, a string is itself.\<close>

fun tostr :: "pyval \<Rightarrow> string" where
  "tostr (DateTime d) = strftime d"
| "tostr (Str s) = s"

text \<open>
  Evaluating a generator of fallible calls and collecting the results: the first
  exception ends it.
\<close>

fun collect :: "(error + 'a) list \<Rightarrow> error + 'a list" where
  "collect [] = Inr []"
| "collect (Inl e # rs) = Inl e"
| "collect (Inr v # rs) = (case collect rs of Inl e \<Rightarrow> Inl e | Inr vs \<Rightarrow> Inr (v # vs))"

text \<open>
  \<^verbatim>\<open>from_str(cls, s, separator='_')\<close>: the tokens are bound to the fields by the
  tuple type (so its defaults apply), each field's token is converted, and the converted
  values are given to the constructor by position.
\<close>

definition from_str :: "id_class \<Rightarrow> string \<Rightarrow> string \<Rightarrow> error + StringableTuple" where
  "from_str c s separator =
     (case str_split s separator of
        Inl e \<Rightarrow> Inl e
      | Inr tokens \<Rightarrow>
          (case namedtuple_new (tuple_type c) (map Str tokens) [] of
             Inl e \<Rightarrow> Inl e
           | Inr str_tuple \<Rightarrow>
               (case collect (map (\<lambda>(field, v). fromstr c v field)
                                  (zip (nt_fields (tuple_type c)) str_tuple)) of
                  Inl e \<Rightarrow> Inl e
                | Inr vals \<Rightarrow> StringableTuple_init c vals [])))"

text \<open>
  \<^verbatim>\<open>copy_with(self, **kwargs)\<close>: \<^verbatim>\<open>_asdict()\<close> is a fresh dictionary of the
  fields, \<^verbatim>\<open>update\<close> stores each override in it (a new key is added), and the
  constructor receives every entry as a keyword argument. \<open>self\<close> is only read.
\<close>

definition asdict :: "StringableTuple \<Rightarrow> (string \<times> pyval) list" where
  "asdict self = zip (nt_fields (tuple_type (cls self))) (params self)"

definition dict_update ::
  "(string \<times> pyval) list \<Rightarrow> (string \<times> pyval) list \<Rightarrow> (string \<times> pyval) list" where
  "dict_update data kwargs = fold (\<lambda>(k, v). AList.update k v) kwargs data"

definition copy_with :: "StringableTuple \<Rightarrow> (string \<times> pyval) list \<Rightarrow> error + StringableTuple" where
  "copy_with self kwargs =
     StringableTuple_init (cls self) [] (dict_update (asdict self) kwargs)"

text \<open>
  The property \<^verbatim>\<open>str_tuple\<close>: the fields converted to strings. \<open>params\<close> holds one
  value per field, so building the tuple type again from the converted values binds
  them by position and changes nothing.
\<close>

definition str_tuple :: "StringableTuple \<Rightarrow> string list" where
  "str_tuple self = map tostr (params self)"

text \<open>\<^verbatim>\<open>__str__\<close>, called \<open>encode\<close> by the spec.\<close>

definition py_str :: "StringableTuple \<Rightarrow> string" where
  "py_str self = str_join ''_'' (str_tuple self)"

text \<open>
  \<^verbatim>\<open>__eq__\<close> and \<^verbatim>\<open>__lt__\<close> compare the two \<^verbatim>\<open>str_tuple\<close>s as Python compares
  tuples: element by element, the first difference decides, and a tuple that is a proper
  beginning of the other is smaller. Strings compare in the same way, by character
  code. Both are the lexicographic order of lists.
\<close>

definition py_eq :: "StringableTuple \<Rightarrow> StringableTuple \<Rightarrow> bool" where
  "py_eq self other \<longleftrightarrow> str_tuple self = str_tuple other"

definition py_lt :: "StringableTuple \<Rightarrow> StringableTuple \<Rightarrow> bool" where
  "py_lt self other \<longleftrightarrow> str_tuple self < str_tuple other"

subsection \<open>Paths of a \<^verbatim>\<open>NormalizedSceneId\<close>\<close>

definition dir_path :: "StringableTuple \<Rightarrow> string" where
  "dir_path self = str_join ''/'' (str_tuple self)"

definition scenepath_prefix :: "StringableTuple \<Rightarrow> string" where
  "scenepath_prefix self = str_join ''/'' [dir_path self, py_str self]"

definition metadata_path :: "StringableTuple \<Rightarrow> string" where
  "metadata_path self = scenepath_prefix self @ ''_metadata.json''"

definition band_path :: "StringableTuple \<Rightarrow> string \<Rightarrow> string" where
  "band_path self band = scenepath_prefix self @ ''_'' @ band @ ''.tif''"

subsection \<open>Which instances there are\<close>

text \<open>
  An instance comes from its constructor, which takes \<open>params\<close> from the tuple type:
  it holds one value per field.
\<close>

definition well_formed :: "StringableTuple \<Rightarrow> bool" where
  "well_formed self \<longleftrightarrow> length (params self) = length (nt_fields (tuple_type (cls self)))"

text \<open>
  The spec's valid field tuples: a timestamp field holds a \<^verbatim>\<open>datetime\<close>, every other
  field a string.
\<close>

definition well_typed :: "StringableTuple \<Rightarrow> bool" where
  "well_typed self \<longleftrightarrow>
     list_all2 (\<lambda>field v. case v of
                   Str s \<Rightarrow> field \<notin> timestamp_fields (cls self)
                 | DateTime d \<Rightarrow> field \<in> timestamp_fields (cls self) \<and> valid_datetime d)
       (nt_fields (tuple_type (cls self))) (params self)"

text \<open>The timestamps an identity holds are of the year 1000 or later.\<close>

definition four_digit_years :: "StringableTuple \<Rightarrow> bool" where
  "four_digit_years self \<longleftrightarrow>
     list_all (\<lambda>v. case v of Str s \<Rightarrow> True | DateTime d \<Rightarrow> 1000 \<le> year d) (params self)"

section \<open>Scenes read from files: \<^verbatim>\<open>FilebasedScene\<close>\<close>

subsection \<open>The operating system, as the constructor and the properties see it\<close>

text \<open>
  The class asks the file system four things: \<^verbatim>\<open>os.path.isfile\<close>,
  \<^verbatim>\<open>os.path.isdir\<close>, \<^verbatim>\<open>glob.glob\<close> and \<^verbatim>\<open>open\<close> (for reading), and
  \<^verbatim>\<open>os.path.abspath\<close>, which depends on the working directory. An \<open>os_env\<close> gives
  the answer to each; nothing the class does changes the file system. Every call is
  recorded in a trace of events, so that a theorem can say which calls an operation
  made and how often a file was opened.
\<close>

record os_env =
  env_isfile :: "string \<Rightarrow> bool"
  env_isdir :: "string \<Rightarrow> bool"
  env_glob :: "string \<Rightarrow> string list"
  env_open :: "string \<Rightarrow> error + string"
  env_abspath :: "string \<Rightarrow> string"

datatype event = IsFile string | IsDir string | Glob string | Open string

definition os_path_isfile :: "os_env \<Rightarrow> string \<Rightarrow> event list \<Rightarrow> bool \<times> event list" where
  "os_path_isfile env p tr = (env_isfile env p, tr @ [IsFile p])"

definition os_path_isdir :: "os_env \<Rightarrow> string \<Rightarrow> event list \<Rightarrow> bool \<times> event list" where
  "os_path_isdir env p tr = (env_isdir env p, tr @ [IsDir p])"

definition glob_glob :: "os_env \<Rightarrow> string \<Rightarrow> event list \<Rightarrow> string list \<times> event list" where
  "glob_glob env pat tr = (env_glob env pat, tr @ [Glob pat])"

text \<open>\<^verbatim>\<open>open(p)\<close> and reading all of it: the text of the file, or the error.\<close>

definition open_file :: "os_env \<Rightarrow> string \<Rightarrow> event list \<Rightarrow> (error + string) \<times> event list" where
  "open_file env p tr = (env_open env p, tr @ [Open p])"

text \<open>The number of times a file was opened in a trace.\<close>

fun is_Open :: "event \<Rightarrow> bool" where
  "is_Open (Open p) = True"
| "is_Open _ = False"

definition reads :: "event list \<Rightarrow> nat" where
  "reads tr = length (filter is_Open tr)"

text \<open>
  \<^verbatim>\<open>os.path.join(a, b)\<close> and \<^verbatim>\<open>os.path.dirname(p)\<close> of \<^verbatim>\<open>posixpath\<close>.
\<close>

definition os_path_join :: "string \<Rightarrow> string \<Rightarrow> string" where
  "os_path_join a b =
     (if b \<noteq> [] \<and> hd b = CHR ''/'' then b
      else if a = [] \<or> last a = CHR ''/'' then a @ b
      else a @ ''/'' @ b)"

definition rstrip_slash :: "string \<Rightarrow> string" where
  "rstrip_slash s = rev (dropWhile (\<lambda>c. c = CHR ''/'') (rev s))"

definition os_path_dirname :: "string \<Rightarrow> string" where
  "os_path_dirname p =
     (let head = rev (dropWhile (\<lambda>c. c \<noteq> CHR ''/'') (rev p))
      in if head \<noteq> [] \<and> head \<noteq> replicate (length head) CHR ''/''
         then rstrip_slash head else head)"

subsection \<open>The object and its constructor\<close>

text \<open>
  The instance dictionary of a \<^verbatim>\<open>FilebasedScene\<close>: each attribute is present
  (\<open>Some\<close>) or absent (\<open>None\<close>). \<^verbatim>\<open>band_urls\<close> and \<^verbatim>\<open>metadata\<close> are the two
  entries the cached properties fill; \<open>'j\<close> is the type of a parsed metadata file.
\<close>

record 'j FilebasedScene =
  attr_band_urls :: "(string \<times> string) list option"
  attr_metadata :: "'j option"
  attr_metadata_path :: "string option"
  attr_path :: "string option"

definition new_object :: "'j FilebasedScene" where
  "new_object = \<lparr>attr_band_urls = None, attr_metadata = None,
                 attr_metadata_path = None, attr_path = None\<rparr>"

text \<open>
  \<^verbatim>\<open>__init__(self, path, band_urls=None)\<close>. A failed \<^verbatim>\<open>assert\<close> raises
  \<^verbatim>\<open>AssertionError\<close> out of the constructor, and the caller gets no object. A path
  that is neither a file nor a directory takes neither branch.
\<close>

definition FilebasedScene_init ::
  "os_env \<Rightarrow> string \<Rightarrow> (string \<times> string) list option \<Rightarrow> event list
     \<Rightarrow> (error + 'j FilebasedScene) \<times> event list" where
  "FilebasedScene_init env path band_urls tr =
     (let self = new_object\<lparr>attr_band_urls := band_urls\<rparr>;
          (isfile, tr1) = os_path_isfile env path tr
      in if isfile
         then (Inr (self\<lparr>attr_metadata_path := Some path,
                          attr_path := Some (env_abspath env (os_path_dirname path))\<rparr>), tr1)
         else let (isdir, tr2) = os_path_isdir env path tr1
           in if isdir
              then let (fnames, tr3) = glob_glob env (os_path_join path ''*_metadata.json'') tr2
                in if length fnames = 1
                   then (Inr (self\<lparr>attr_path := Some path,
                                    attr_metadata_path := Some (fnames ! 0)\<rparr>), tr3)
                   else (Inl AssertionError, tr3)
              else (Inr self, tr2))"

subsection \<open>The lazy \<^verbatim>\<open>metadata\<close> property\<close>

text \<open>
  The body of the property: \<^verbatim>\<open>json.load(open(self._metadata_path))\<close>. Reading an
  attribute the object does not have raises \<^verbatim>\<open>AttributeError\<close>, before anything is
  opened. \<open>json_loads\<close> is the parser of the \<^verbatim>\<open>json\<close> library, from the text of a
  file to the parsed value or the error it raises.
\<close>

definition metadata_body ::
  "os_env \<Rightarrow> (string \<Rightarrow> error + 'j) \<Rightarrow> 'j FilebasedScene \<Rightarrow> event list
     \<Rightarrow> (error + 'j) \<times> event list" where
  "metadata_body env json_loads self tr =
     (case attr_metadata_path self of
        None \<Rightarrow> (Inl AttributeError, tr)
      | Some p \<Rightarrow>
          (case open_file env p tr of
             (Inl e, tr') \<Rightarrow> (Inl e, tr')
           | (Inr content, tr') \<Rightarrow> (json_loads content, tr')))"

text \<open>
  Modelled from the spec: \<^verbatim>\<open>calval.utils.cached_property\<close>, the decorator of
  \<^verbatim>\<open>metadata\<close> and \<^verbatim>\<open>band_urls\<close>, whose module is not among the sources. The
  spec: the value is ``computed at most once, on first access, and cached for the
  object's lifetime''; when the computation fails ``the lazy-resolution cache slot
  remains unresolved, so every subsequent access re-attempts resolution and re-raises
  (no error caching)''. \<open>slot\<close> reads the object's cache entry, \<open>store\<close> writes it,
  \<open>body\<close> is the decorated method; an access returns the value or the error, and the
  object as the access leaves it.
\<close>

definition cached_property ::
  "('s \<Rightarrow> 'v option) \<Rightarrow> ('v \<Rightarrow> 's \<Rightarrow> 's) \<Rightarrow> ('s \<Rightarrow> event list \<Rightarrow> (error + 'v) \<times> event list)
     \<Rightarrow> 's \<Rightarrow> event list \<Rightarrow> ((error + 'v) \<times> 's) \<times> event list" where
  "cached_property slot store body self tr =
     (case slot self of
        Some v \<Rightarrow> ((Inr v, self), tr)
      | None \<Rightarrow>
          (case body self tr of
             (Inl e, tr') \<Rightarrow> ((Inl e, self), tr')
           | (Inr v, tr') \<Rightarrow> ((Inr v, store v self), tr')))"

text \<open>An access to \<^verbatim>\<open>scene.metadata\<close>.\<close>

definition get_metadata ::
  "os_env \<Rightarrow> (string \<Rightarrow> error + 'j) \<Rightarrow> 'j FilebasedScene \<Rightarrow> event list
     \<Rightarrow> ((error + 'j) \<times> 'j FilebasedScene) \<times> event list" where
  "get_metadata env json_loads =
     cached_property attr_metadata (\<lambda>v self. self\<lparr>attr_metadata := Some v\<rparr>)
       (metadata_body env json_loads)"

text \<open>
  \<open>n\<close> accesses to \<^verbatim>\<open>scene.metadata\<close> one after the other, on the object as the
  access before left it: the results in order, the object and the trace at the end.
\<close>

fun repeat_metadata ::
  "nat \<Rightarrow> os_env \<Rightarrow> (string \<Rightarrow> error + 'j) \<Rightarrow> 'j FilebasedScene \<Rightarrow> event list
     \<Rightarrow> ((error + 'j) list \<times> 'j FilebasedScene) \<times> event list" where
  "repeat_metadata 0 env json_loads self tr = (([], self), tr)"
| "repeat_metadata (Suc n) env json_loads self tr =
     (case get_metadata env json_loads self tr of
        ((r, self'), tr') \<Rightarrow>
          (case repeat_metadata n env json_loads self' tr' of
             ((rs, self''), tr'') \<Rightarrow> ((r # rs, self''), tr'')))"

subsection \<open>A small file system for examples\<close>

text \<open>
  The environment of a file system with one directory \<open>d\<close> that holds the files
  \<open>files\<close> (name and text), seen from the root as working directory. Its
  \<^verbatim>\<open>glob\<close> answers the one pattern the constructor asks for, as \<^verbatim>\<open>glob.glob\<close>
  does: the entries whose name ends in \<^verbatim>\<open>_metadata.json\<close> and does not start with
  a dot.
\<close>

definition ends_with :: "string \<Rightarrow> string \<Rightarrow> bool" where
  "ends_with s suffix \<longleftrightarrow> drop (length s - length suffix) s = suffix"

definition single_dir_env :: "string \<Rightarrow> (string \<times> string) list \<Rightarrow> os_env" where
  "single_dir_env d files =
     \<lparr>env_isfile = (\<lambda>p. p \<in> set (map (\<lambda>(n, c). d @ ''/'' @ n) files)),
      env_isdir = (\<lambda>p. p = d),
      env_glob = (\<lambda>pat. if pat = d @ ''/*_metadata.json''
                          then map (\<lambda>(n, c). d @ ''/'' @ n)
                                 (filter (\<lambda>(n, c). ends_with n ''_metadata.json'' \<and> take 1 n \<noteq> ''.'') files)
                          else []),
      env_open = (\<lambda>p. case map_of (map (\<lambda>(n, c). (d @ ''/'' @ n, c)) files) p of
                         Some c \<Rightarrow> Inr c
                       | None \<Rightarrow> Inl OSError),
      env_abspath = (\<lambda>p. if take 1 p = ''/'' then p else ''/'' @ p)\<rparr>"

text \<open>
  A stand-in for \<^verbatim>\<open>json.loads\<close> in examples: it knows one document, the object with
  the single key \<^verbatim>\<open>scene_id\<close>, and refuses every other text.
\<close>

definition example_loads :: "string \<Rightarrow> error + (string \<times> string) list" where
  \<open>example_loads content =
     (if content = ''{"scene_id": "L1_SAT1_TILE42_202401011200_0"}''
      then Inr [(''scene_id'', ''L1_SAT1_TILE42_202401011200_0'')]
      else Inl ValueError)\<close>

section \<open>Strings and timestamps: the facts the identities rest on\<close>

subsection \<open>Splitting and joining\<close>

lemma split_from_no_sep:
  "c \<notin> set x \<Longrightarrow> split_from [c] acc x = [rev acc @ x]"
  by (induction x arbitrary: acc) auto

lemma split_from_sep:
  "c \<notin> set x \<Longrightarrow> split_from [c] acc (x @ c # rest) = (rev acc @ x) # split_from [c] [] rest"
  by (induction x arbitrary: acc) auto

lemma split_join:
  "xs \<noteq> [] \<Longrightarrow> \<forall>x \<in> set xs. c \<notin> set x \<Longrightarrow> split_from [c] [] (str_join [c] xs) = xs"
proof (induction xs rule: induct_list012)
  case 1
  then show ?case by simp
next
  case (2 x)
  then show ?case by (simp add: split_from_no_sep)
next
  case (3 x y zs)
  then show ?case by (simp add: split_from_sep)
qed

lemma split_from_not_Nil: "split_from sep acc s \<noteq> []"
proof (induction sep acc s rule: split_from.induct)
  case (1 sep acc)
  show ?case by simp
next
  case (2 sep acc c cs)
  show ?case
  proof (cases "sep \<noteq> [] \<and> take (length sep) (c # cs) = sep")
    case True
    then show ?thesis by (subst split_from.simps) simp
  next
    case False
    with 2(2) show ?thesis by (subst split_from.simps) auto
  qed
qed

lemma join_split: "str_join [c] (split_from [c] acc s) = rev acc @ s"
proof (induction s arbitrary: acc)
  case Nil
  then show ?case by simp
next
  case (Cons a s)
  show ?case
  proof (cases "a = c")
    case True
    obtain t ts where "split_from [c] [] s = t # ts"
      using split_from_not_Nil[of "[c]" "[]" s] by (cases "split_from [c] [] s") auto
    with Cons[of "[]"] True show ?thesis by simp
  next
    case False
    with Cons[of "a # acc"] show ?thesis by simp
  qed
qed

subsection \<open>Digits and zero padding\<close>

lemma lt10_cases: "k < 10 \<Longrightarrow> k \<in> {0, 1, 2, 3, 4, 5, 6, 7, 8, 9::nat}"
proof -
  assume "k < 10"
  then have "k \<in> set [0..<10]" by simp
  also have "[0..<10] = [0, 1, 2, 3, 4, 5, 6, 7, 8, 9::nat]" by code_simp
  finally show ?thesis by simp
qed

lemma digit_char_digit: "digit_char n \<in> set ''0123456789''"
proof -
  have "n mod 10 \<in> {0,1,2,3,4,5,6,7,8,9}" by (rule lt10_cases) simp
  then show ?thesis unfolding digit_char_def by auto
qed

lemma digit_val_digit_char: "digit_val (digit_char n) = n mod 10"
proof -
  have "n mod 10 \<in> {0,1,2,3,4,5,6,7,8,9}" by (rule lt10_cases) simp
  then show ?thesis unfolding digit_char_def digit_val_def by auto
qed

lemma decimal_lt10: "n < 10 \<Longrightarrow> decimal n = [digit_char n]"
  by (simp add: decimal.simps)

lemma decimal_lt100: "10 \<le> n \<Longrightarrow> n < 100 \<Longrightarrow> decimal n = [digit_char (n div 10), digit_char n]"
  by (subst decimal.simps) (simp add: decimal_lt10)

lemma decimal_lt1000: "100 \<le> n \<Longrightarrow> n < 1000 \<Longrightarrow>
  decimal n = [digit_char (n div 100), digit_char (n div 10), digit_char n]"
  by (subst decimal.simps) (simp add: decimal_lt100 div_mult2_eq[symmetric])

lemma decimal_lt10000: "1000 \<le> n \<Longrightarrow> n < 10000 \<Longrightarrow>
  decimal n = [digit_char (n div 1000), digit_char (n div 100), digit_char (n div 10), digit_char n]"
  by (subst decimal.simps) (simp add: decimal_lt1000 div_mult2_eq[symmetric])

lemma digit_char_0: "digit_char 0 = CHR ''0''"
  by (simp add: digit_char_def)

lemma zero_pad_2: "n < 100 \<Longrightarrow> zero_pad 2 n = [digit_char (n div 10), digit_char n]"
  by (cases "n < 10") (simp_all add: zero_pad_def decimal_lt10 decimal_lt100 digit_char_0)

subsection \<open>The groups of the timestamp expression on a formatted timestamp\<close>

lemma one_of_Cons: "one_of cs (c # r) = (if c \<in> set cs then [([c], r)] else [])"
  by (simp add: one_of_def)

lemma re_seq_one_of:
  "re_seq (one_of cs) q (c # r) = (if c \<in> set cs then map (\<lambda>(y, r'). (c # y, r')) (q r) else [])"
  by (simp add: re_seq_def one_of_def)

lemma digit_char_not_space: "digit_char n \<noteq> CHR '' ''"
  using digit_char_digit[of n] by auto

lemma py_int_pad2: "n < 100 \<Longrightarrow> py_int (zero_pad 2 n) = n"
  by (simp add: zero_pad_2 py_int_def digit_char_not_space digit_val_digit_char)

lemma four_digits:
  "1000 * (n div 1000) + 100 * (n div 100 mod 10) + 10 * (n div 10 mod 10) + n mod 10 = (n::nat)"
proof -
  define a where "a = n div 10"
  define b where "b = a div 10"
  define c where "c = b div 10"
  define n0 where "n0 = n mod 10"
  define a0 where "a0 = a mod 10"
  define b0 where "b0 = b mod 10"
  have 1: "n = 10 * a + n0" unfolding a_def n0_def by simp
  have 2: "a = 10 * b + a0" unfolding b_def a0_def by simp
  have 3: "b = 10 * c + b0" unfolding c_def b0_def by simp
  have 4: "n div 100 = b" by (simp add: a_def b_def div_mult2_eq[symmetric])
  have 5: "n div 1000 = c" by (simp add: a_def b_def c_def div_mult2_eq[symmetric])
  have "1000 * c + 100 * b0 + 10 * a0 + n0 = n"
    using 1 2 3 by linarith
  then show ?thesis
    by (simp only: 4 5 a_def[symmetric] b0_def[symmetric] a0_def[symmetric] n0_def[symmetric])
qed

lemma py_int_year: "1000 \<le> n \<Longrightarrow> n < 10000 \<Longrightarrow> py_int (decimal n) = n"
  by (simp add: decimal_lt10000 py_int_def digit_char_not_space digit_val_digit_char four_digits)

lemma re_seq4_one_of:
  assumes "a \<in> set D" and "b \<in> set D" and "c \<in> set D" and "d \<in> set D"
  shows "re_seq (one_of D) (re_seq (one_of D) (re_seq (one_of D) (one_of D))) (a # b # c # d # r)
           = [([a, b, c, d], r)]"
  using assms by (simp add: re_seq_one_of one_of_Cons)

lemma re_Y_year:
  assumes "1000 \<le> n" and "n < 10000"
  shows "re_Y (decimal n @ r) = [(decimal n, r)]"
proof -
  have "re_Y (digit_char (n div 1000) # digit_char (n div 100) # digit_char (n div 10)
               # digit_char n # r)
          = [([digit_char (n div 1000), digit_char (n div 100), digit_char (n div 10),
               digit_char n], r)]"
    unfolding re_Y_def re_digit_def by (rule re_seq4_one_of) (rule digit_char_digit)+
  then show ?thesis
    by (simp only: decimal_lt10000[OF assms] append_Cons append_Nil)
qed

lemma re_m_pad:
  assumes "1 \<le> n" and "n \<le> 12"
  shows "\<exists>ms. re_m (zero_pad 2 n @ r) = (zero_pad 2 n, r) # ms"
proof -
  have "n \<in> set [1..<13]" using assms by simp
  also have "[1..<13] = [1, 2, 3, 4, 5, 6, 7, 8, 9, 10, 11, 12::nat]" by code_simp
  finally have "n \<in> {1, 2, 3, 4, 5, 6, 7, 8, 9, 10, 11, 12::nat}" by simp
  then show ?thesis
    by (elim insertE emptyE)
      (simp_all add: zero_pad_2 digit_char_def re_m_def re_digit_def re_alt_def re_seq_one_of one_of_Cons)
qed

lemma re_d_pad:
  assumes "1 \<le> n" and "n \<le> 31"
  shows "\<exists>ms. re_d (zero_pad 2 n @ r) = (zero_pad 2 n, r) # ms"
proof -
  have "n \<in> set [1..<32]" using assms by simp
  also have "[1..<32] = [1, 2, 3, 4, 5, 6, 7, 8, 9, 10, 11, 12, 13, 14, 15, 16, 17, 18, 19, 20, 21, 22, 23, 24, 25, 26, 27, 28, 29, 30, 31::nat]" by code_simp
  finally have "n \<in> {1, 2, 3, 4, 5, 6, 7, 8, 9, 10, 11, 12, 13, 14, 15, 16, 17, 18, 19, 20, 21, 22, 23, 24, 25, 26, 27, 28, 29, 30, 31::nat}" by simp
  then show ?thesis
    by (elim insertE emptyE)
      (simp_all add: zero_pad_2 digit_char_def re_d_def re_digit_def re_alt_def re_seq_one_of one_of_Cons)
qed

lemma re_H_pad:
  assumes "n < 24"
  shows "\<exists>ms. re_H (zero_pad 2 n @ r) = (zero_pad 2 n, r) # ms"
proof -
  have "n \<in> set [0..<24]" using assms by simp
  also have "[0..<24] = [0, 1, 2, 3, 4, 5, 6, 7, 8, 9, 10, 11, 12, 13, 14, 15, 16, 17, 18, 19, 20, 21, 22, 23::nat]" by code_simp
  finally have "n \<in> {0, 1, 2, 3, 4, 5, 6, 7, 8, 9, 10, 11, 12, 13, 14, 15, 16, 17, 18, 19, 20, 21, 22, 23::nat}" by simp
  then show ?thesis
    by (elim insertE emptyE)
      (simp_all add: zero_pad_2 digit_char_def re_H_def re_digit_def re_alt_def re_seq_one_of one_of_Cons)
qed

lemma re_M_pad:
  assumes "n < 60"
  shows "\<exists>ms. re_M (zero_pad 2 n @ r) = (zero_pad 2 n, r) # ms"
proof -
  have "n \<in> set [0..<60]" using assms by simp
  also have "[0..<60] = [0, 1, 2, 3, 4, 5, 6, 7, 8, 9, 10, 11, 12, 13, 14, 15, 16, 17, 18, 19, 20, 21, 22, 23, 24, 25, 26, 27, 28, 29, 30, 31, 32, 33, 34, 35, 36, 37, 38, 39, 40, 41, 42, 43, 44, 45, 46, 47, 48, 49, 50, 51, 52, 53, 54, 55, 56, 57, 58, 59::nat]" by code_simp
  finally have "n \<in> {0, 1, 2, 3, 4, 5, 6, 7, 8, 9, 10, 11, 12, 13, 14, 15, 16, 17, 18, 19, 20, 21, 22, 23, 24, 25, 26, 27, 28, 29, 30, 31, 32, 33, 34, 35, 36, 37, 38, 39, 40, 41, 42, 43, 44, 45, 46, 47, 48, 49, 50, 51, 52, 53, 54, 55, 56, 57, 58, 59::nat}" by simp
  then show ?thesis
    by (elim insertE emptyE)
      (simp_all add: zero_pad_2 digit_char_def re_M_def re_digit_def re_alt_def re_seq_one_of one_of_Cons)
qed

subsection \<open>Parsing what \<^verbatim>\<open>strftime\<close> printed\<close>

lemma timestamp_matches_first:
  assumes "re_Y s = [(gY, r1)]" and "re_m r1 = (gm, r2) # ms1" and "re_d r2 = (gd, r3) # ms2"
    and "re_H r3 = (gH, r4) # ms3" and "re_M r4 = (gM, r5) # ms4"
  shows "\<exists>ms. timestamp_matches s = ([gY, gm, gd, gH, gM], r5) # ms"
  by (simp add: timestamp_matches_def assms)

lemma days_in_month_le: "days_in_month y m \<le> 31"
  by (simp add: days_in_month_def)

lemma strptime_strftime:
  assumes "valid_datetime d" and "1000 \<le> year d"
  shows "strptime (strftime d) = Inr (d\<lparr>second := 0, microsecond := 0\<rparr>)"
proof -
  from assms have y: "1000 \<le> year d" "year d < 10000" and m: "1 \<le> month d" "month d \<le> 12"
    and dd: "1 \<le> day d" "day d \<le> days_in_month (year d) (month d)"
    and h: "hour d < 24" and mi: "minute d < 60"
    by (simp_all add: valid_datetime_def)
  from dd(2) have d31: "day d \<le> 31"
    using days_in_month_le[of "year d" "month d"] by linarith
  obtain ms1 where 1: "re_m (zero_pad 2 (month d) @ zero_pad 2 (day d) @ zero_pad 2 (hour d) @ zero_pad 2 (minute d))
      = (zero_pad 2 (month d), zero_pad 2 (day d) @ zero_pad 2 (hour d) @ zero_pad 2 (minute d)) # ms1"
    using re_m_pad[OF m] by blast
  obtain ms2 where 2: "re_d (zero_pad 2 (day d) @ zero_pad 2 (hour d) @ zero_pad 2 (minute d))
      = (zero_pad 2 (day d), zero_pad 2 (hour d) @ zero_pad 2 (minute d)) # ms2"
    using re_d_pad[OF dd(1) d31] by blast
  obtain ms3 where 3: "re_H (zero_pad 2 (hour d) @ zero_pad 2 (minute d))
      = (zero_pad 2 (hour d), zero_pad 2 (minute d)) # ms3"
    using re_H_pad[OF h] by blast
  obtain ms4 where 4: "re_M (zero_pad 2 (minute d)) = (zero_pad 2 (minute d), []) # ms4"
    using re_M_pad[OF mi, of "[]"] by auto
  have 0: "re_Y (strftime d) = [(decimal (year d),
      zero_pad 2 (month d) @ zero_pad 2 (day d) @ zero_pad 2 (hour d) @ zero_pad 2 (minute d))]"
    unfolding strftime_def by (rule re_Y_year[OF y])
  obtain ms where ms: "timestamp_matches (strftime d) =
      ([decimal (year d), zero_pad 2 (month d), zero_pad 2 (day d), zero_pad 2 (hour d),
        zero_pad 2 (minute d)], []) # ms"
    using timestamp_matches_first[OF 0 1 2 3 4] by blast
  have ints: "py_int (decimal (year d)) = year d" "py_int (zero_pad 2 (month d)) = month d"
    "py_int (zero_pad 2 (day d)) = day d" "py_int (zero_pad 2 (hour d)) = hour d"
    "py_int (zero_pad 2 (minute d)) = minute d"
    using y m d31 h mi by (simp_all add: py_int_pad2 py_int_year)
  show ?thesis
    using y(1) dd(2) by (simp add: strptime_def ms ints)
qed

lemma strftime_truncate: "strftime (d\<lparr>second := s, microsecond := u\<rparr>) = strftime d"
  by (simp add: strftime_def)

section \<open>Identities: decoding, comparing, copying\<close>

lemma well_typed_sceneset:
  assumes "well_typed x" and "cls x = NormalizedScenesetId"
  shows "\<exists>a b d. params x = [Str a, Str b, DateTime d] \<and> valid_datetime d"
proof -
  from assms obtain u v w where p: "params x = [u, v, w]"
    by (auto simp: well_typed_def scenesetid_params_def list_all2_Cons1)
  with assms show ?thesis
    by (cases u; cases v; cases w) (simp_all add: well_typed_def scenesetid_params_def)
qed

lemma well_typed_scene:
  assumes "well_typed x" and "cls x = NormalizedSceneId"
  shows "\<exists>p a b d t. params x = [Str p, Str a, Str b, DateTime d, Str t] \<and> valid_datetime d"
proof -
  from assms obtain q u v w t where p: "params x = [q, u, v, w, t]"
    by (auto simp: well_typed_def sceneid_params_def list_all2_Cons1)
  with assms show ?thesis
    by (cases q; cases u; cases v; cases w; cases t) (simp_all add: well_typed_def sceneid_params_def)
qed

lemma from_str_sceneset:
  "str_split s sep = Inr [a, b, t] \<Longrightarrow>
   from_str NormalizedScenesetId s sep =
     (case strptime t of
        Inl e \<Rightarrow> Inl e
      | Inr d \<Rightarrow> Inr \<lparr>cls = NormalizedScenesetId, params = [Str a, Str b, DateTime d]\<rparr>)"
  by (simp add: from_str_def namedtuple_new_def scenesetid_params_def fromstr_def
      StringableTuple_init_def split: sum.splits)

lemma from_str_scene5:
  "str_split s sep = Inr [p, a, b, t, g] \<Longrightarrow>
   from_str NormalizedSceneId s sep =
     (case strptime t of
        Inl e \<Rightarrow> Inl e
      | Inr d \<Rightarrow> Inr \<lparr>cls = NormalizedSceneId, params = [Str p, Str a, Str b, DateTime d, Str g]\<rparr>)"
  by (simp add: from_str_def namedtuple_new_def sceneid_params_def fromstr_def
      StringableTuple_init_def split: sum.splits)

lemma from_str_scene4:
  "str_split s sep = Inr [p, a, b, t] \<Longrightarrow>
   from_str NormalizedSceneId s sep =
     (case strptime t of
        Inl e \<Rightarrow> Inl e
      | Inr d \<Rightarrow> Inr \<lparr>cls = NormalizedSceneId, params = [Str p, Str a, Str b, DateTime d, Str ''0'']\<rparr>)"
  by (simp add: from_str_def namedtuple_new_def sceneid_params_def fromstr_def default_for_def
      StringableTuple_init_def split: sum.splits)

lemma str_split_join:
  "xs \<noteq> [] \<Longrightarrow> \<forall>x \<in> set xs. CHR ''_'' \<notin> set x \<Longrightarrow> str_split (str_join ''_'' xs) ''_'' = Inr xs"
  by (simp add: str_split_def split_join)

text \<open>
  Claim C4, as the code has it. An identity whose timestamp field holds a
  \<^verbatim>\<open>datetime\<close> of the year 1000 or later and whose other fields hold strings, none
  of the converted fields containing the separator: decoding its encoded string
  succeeds, and the decoded identity is of the same class and equal to the original
  (\<^verbatim>\<open>==\<close>, equality of the converted fields). This holds for the three fields of
  \<^verbatim>\<open>NormalizedScenesetId\<close> and the five of \<^verbatim>\<open>NormalizedSceneId\<close>; seconds and
  microseconds of the timestamp are lost, which \<^verbatim>\<open>==\<close> does not see.
\<close>

theorem from_str_round_trip:
  assumes "well_typed x" and "four_digit_years x"
    and "\<forall>s \<in> set (str_tuple x). CHR ''_'' \<notin> set s"
  shows "\<exists>y. from_str (cls x) (py_str x) ''_'' = Inr y \<and> cls y = cls x \<and> py_eq y x"
proof (cases "cls x")
  case NormalizedScenesetId
  with assms(1) obtain a b d where p: "params x = [Str a, Str b, DateTime d]" and d: "valid_datetime d"
    using well_typed_sceneset by blast
  from assms(2) have y: "1000 \<le> year d"
    by (simp add: four_digit_years_def p)
  have st: "str_tuple x = [a, b, strftime d]"
    by (simp add: str_tuple_def p)
  have "str_split (py_str x) ''_'' = Inr [a, b, strftime d]"
    using assms(3) str_split_join[of "str_tuple x"] by (simp add: py_str_def st)
  then show ?thesis
    using NormalizedScenesetId
    by (simp add: from_str_sceneset strptime_strftime[OF d y] py_eq_def str_tuple_def p
        strftime_truncate)
next
  case NormalizedSceneId
  with assms(1) obtain q a b d t where p: "params x = [Str q, Str a, Str b, DateTime d, Str t]"
    and d: "valid_datetime d"
    using well_typed_scene by blast
  from assms(2) have y: "1000 \<le> year d"
    by (simp add: four_digit_years_def p)
  have st: "str_tuple x = [q, a, b, strftime d, t]"
    by (simp add: str_tuple_def p)
  have "str_split (py_str x) ''_'' = Inr [q, a, b, strftime d, t]"
    using assms(3) str_split_join[of "str_tuple x"] by (simp add: py_str_def st)
  then show ?thesis
    using NormalizedSceneId
    by (simp add: from_str_scene5 strptime_strftime[OF d y] py_eq_def str_tuple_def p
        strftime_truncate)
qed

theorem from_str_round_trip_witness:
  "(\<exists>y. from_str NormalizedScenesetId ''SAT1_TILE42_202401011200'' ''_'' = Inr y \<and>
        cls y = NormalizedScenesetId \<and>
        py_eq y \<lparr>cls = NormalizedScenesetId,
                 params = [Str ''SAT1'', Str ''TILE42'',
                           DateTime \<lparr>year = 2024, month = 1, day = 1, hour = 12, minute = 0,
                                     second = 30, microsecond = 0\<rparr>]\<rparr>)
 \<and> (\<exists>y. from_str NormalizedSceneId ''L1_SAT1_TILE42_202401011200_0'' ''_'' = Inr y \<and>
        cls y = NormalizedSceneId \<and>
        py_eq y \<lparr>cls = NormalizedSceneId,
                 params = [Str ''L1'', Str ''SAT1'', Str ''TILE42'',
                           DateTime \<lparr>year = 2024, month = 1, day = 1, hour = 12, minute = 0,
                                     second = 30, microsecond = 0\<rparr>, Str ''0'']\<rparr>)"
proof -
  let ?t = "\<lparr>year = 2024, month = 1, day = 1, hour = 12, minute = 0, second = 30, microsecond = 0\<rparr>"
  let ?x1 = "\<lparr>cls = NormalizedScenesetId, params = [Str ''SAT1'', Str ''TILE42'', DateTime ?t]\<rparr>"
  let ?x2 = "\<lparr>cls = NormalizedSceneId,
              params = [Str ''L1'', Str ''SAT1'', Str ''TILE42'', DateTime ?t, Str ''0'']\<rparr>"
  have v: "valid_datetime ?t" by (simp add: valid_datetime_def days_in_month_def)
  have w: "well_typed ?x1" "well_typed ?x2"
    using v by (simp_all add: well_typed_def scenesetid_params_def sceneid_params_def)
  have f: "four_digit_years ?x1" "four_digit_years ?x2"
    by (simp_all add: four_digit_years_def)
  have s: "py_str ?x1 = ''SAT1_TILE42_202401011200''" "py_str ?x2 = ''L1_SAT1_TILE42_202401011200_0''"
    by code_simp+
  have n: "\<forall>s \<in> set (str_tuple ?x1). CHR ''_'' \<notin> set s" "\<forall>s \<in> set (str_tuple ?x2). CHR ''_'' \<notin> set s"
    by code_simp+
  show ?thesis
    using from_str_round_trip[OF w(1) f(1) n(1), unfolded s]
      from_str_round_trip[OF w(2) f(2) n(2), unfolded s]
    by simp
qed

text \<open>
  The claim as stated fails below the year 1000. The scene set of the first of January
  999, midnight, encodes with the timestamp \<^verbatim>\<open>99901010000\<close>, eleven digits, which
  \<^verbatim>\<open>strptime\<close> reads as the tenth of October 9990: the decoded identity is not equal
  to the original.
\<close>

theorem from_str_round_trip_counterexample:
  "well_typed \<lparr>cls = NormalizedScenesetId,
               params = [Str ''SAT1'', Str ''TILE42'',
                         DateTime \<lparr>year = 999, month = 1, day = 1, hour = 0, minute = 0,
                                   second = 0, microsecond = 0\<rparr>]\<rparr>
 \<and> str_tuple \<lparr>cls = NormalizedScenesetId,
               params = [Str ''SAT1'', Str ''TILE42'',
                         DateTime \<lparr>year = 999, month = 1, day = 1, hour = 0, minute = 0,
                                   second = 0, microsecond = 0\<rparr>]\<rparr>
     = [''SAT1'', ''TILE42'', ''99901010000'']
 \<and> from_str NormalizedScenesetId
      (py_str \<lparr>cls = NormalizedScenesetId,
               params = [Str ''SAT1'', Str ''TILE42'',
                         DateTime \<lparr>year = 999, month = 1, day = 1, hour = 0, minute = 0,
                                   second = 0, microsecond = 0\<rparr>]\<rparr>) ''_''
     = Inr \<lparr>cls = NormalizedScenesetId,
            params = [Str ''SAT1'', Str ''TILE42'',
                      DateTime \<lparr>year = 9990, month = 10, day = 10, hour = 0, minute = 0,
                                second = 0, microsecond = 0\<rparr>]\<rparr>
 \<and> \<not> py_eq \<lparr>cls = NormalizedScenesetId,
            params = [Str ''SAT1'', Str ''TILE42'',
                      DateTime \<lparr>year = 9990, month = 10, day = 10, hour = 0, minute = 0,
                                second = 0, microsecond = 0\<rparr>]\<rparr>
           \<lparr>cls = NormalizedScenesetId,
               params = [Str ''SAT1'', Str ''TILE42'',
                         DateTime \<lparr>year = 999, month = 1, day = 1, hour = 0, minute = 0,
                                   second = 0, microsecond = 0\<rparr>]\<rparr>"
proof -
  let ?t = "\<lparr>year = 999, month = 1, day = 1, hour = 0, minute = 0, second = 0, microsecond = 0\<rparr>"
  let ?u = "\<lparr>year = 9990, month = 10, day = 10, hour = 0, minute = 0, second = 0,
             microsecond = 0\<rparr>"
  let ?x = "\<lparr>cls = NormalizedScenesetId, params = [Str ''SAT1'', Str ''TILE42'', DateTime ?t]\<rparr>"
  have t: "strftime ?t = ''99901010000''"
    by (simp add: strftime_def decimal_lt1000 zero_pad_2 digit_char_def)
  have u: "strftime ?u = ''999010100000''"
    by (simp add: strftime_def decimal_lt10000 zero_pad_2 digit_char_def)
  have p: "strptime ''99901010000'' = Inr ?u" by code_simp
  have sp: "str_split ''SAT1_TILE42_99901010000'' ''_'' = Inr [''SAT1'', ''TILE42'', ''99901010000'']"
    by code_simp
  have 1: "well_typed ?x"
    by (simp add: well_typed_def scenesetid_params_def valid_datetime_def days_in_month_def)
  have 2: "str_tuple ?x = [''SAT1'', ''TILE42'', ''99901010000'']"
    unfolding str_tuple_def by (simp only: StringableTuple.simps list.map tostr.simps t)
  have 3: "py_str ?x = ''SAT1_TILE42_99901010000''"
    unfolding py_str_def 2 by simp
  have 4: "from_str NormalizedScenesetId (py_str ?x) ''_''
             = Inr \<lparr>cls = NormalizedScenesetId, params = [Str ''SAT1'', Str ''TILE42'', DateTime ?u]\<rparr>"
    unfolding 3 by (simp only: from_str_sceneset[OF sp] p sum.case)
  have 6: "str_tuple \<lparr>cls = NormalizedScenesetId,
                         params = [Str ''SAT1'', Str ''TILE42'', DateTime ?u]\<rparr>
             = [''SAT1'', ''TILE42'', ''999010100000'']"
    unfolding str_tuple_def by (simp only: StringableTuple.simps list.map tostr.simps u)
  have 5: "\<not> py_eq \<lparr>cls = NormalizedScenesetId, params = [Str ''SAT1'', Str ''TILE42'', DateTime ?u]\<rparr> ?x"
    by (simp only: py_eq_def 2 6) simp
  show ?thesis by (rule conjI[OF 1 conjI[OF 2 conjI[OF 4 5]]])
qed









lemma strptime_error: "strptime t = Inl e \<Longrightarrow> e = ValueError"
  by (auto simp: strptime_def Let_def split: list.splits prod.splits if_splits)

text \<open>
  Claim C9, as the code has it. A string of four tokens is never refused by
  \<^verbatim>\<open>NormalizedSceneId\<close> for its number of tokens. When its fourth token does not
  parse as a timestamp, decoding fails with \<^verbatim>\<open>ValueError\<close>. When it parses, decoding
  succeeds: the tag is the default \<^verbatim>\<open>'0'\<close>, the other fields are the tokens, and the
  result encodes to the first three tokens, the timestamp formatted again, and
  \<^verbatim>\<open>0\<close>. That is the input followed by \<^verbatim>\<open>_0\<close> exactly when formatting the parsed
  timestamp gives the fourth token back.
\<close>

theorem from_str_default_tag:
  assumes "str_split s ''_'' = Inr [p, a, b, t]"
  shows "(case strptime t of
            Inl e \<Rightarrow> from_str NormalizedSceneId s ''_'' = Inl ValueError
          | Inr d \<Rightarrow>
              (\<exists>x. from_str NormalizedSceneId s ''_'' = Inr x \<and>
                 params x = [Str p, Str a, Str b, DateTime d, Str ''0''] \<and>
                 py_str x = str_join ''_'' [p, a, b, strftime d, ''0''] \<and>
                 (py_str x = s @ ''_0'' \<longleftrightarrow> strftime d = t)))"
proof -
  from assms have "split_from ''_'' [] s = [p, a, b, t]"
    by (simp add: str_split_def split: if_splits)
  with join_split[of "CHR ''_''" "[]" s] have s: "s = p @ ''_'' @ a @ ''_'' @ b @ ''_'' @ t"
    by simp
  show ?thesis
  proof (cases "strptime t")
    case (Inl e)
    with strptime_error[OF Inl] assms show ?thesis
      by (simp add: from_str_scene4)
  next
    case (Inr d)
    with assms show ?thesis
      by (simp add: from_str_scene4 py_str_def str_tuple_def s)
  qed
qed

text \<open>
  The example of the claim, which decodes and encodes to itself followed by
  \<^verbatim>\<open>_0\<close>, and a string of four tokens that does not decode.
\<close>

theorem from_str_default_tag_witness:
  "(\<exists>x. from_str NormalizedSceneId ''L1_SAT1_TILE42_202401011200'' ''_'' = Inr x \<and>
       params x = [Str ''L1'', Str ''SAT1'', Str ''TILE42'',
                   DateTime \<lparr>year = 2024, month = 1, day = 1, hour = 12, minute = 0,
                             second = 0, microsecond = 0\<rparr>, Str ''0''] \<and>
       py_str x = ''L1_SAT1_TILE42_202401011200_0'')
 \<and> from_str NormalizedSceneId ''a_b_c_d'' ''_'' = Inl ValueError"
proof -
  let ?d = "\<lparr>year = 2024, month = 1, day = 1, hour = 12, minute = 0, second = 0, microsecond = 0\<rparr>"
  have 1: "str_split ''L1_SAT1_TILE42_202401011200'' ''_'' = Inr [''L1'', ''SAT1'', ''TILE42'', ''202401011200'']"
    by code_simp
  have 2: "strptime ''202401011200'' = Inr ?d" by code_simp
  have 3: "strftime ?d = ''202401011200''" by code_simp
  have 4: "str_split ''a_b_c_d'' ''_'' = Inr [''a'', ''b'', ''c'', ''d'']" by code_simp
  have 5: "strptime ''d'' = Inl ValueError" by code_simp
  from from_str_default_tag[OF 1, unfolded 2 sum.case 3] from_str_default_tag[OF 4, unfolded 5 sum.case]
  show ?thesis by auto
qed

text \<open>
  The claim as stated fails on two inputs of four tokens. \<^verbatim>\<open>a_b_c_d\<close> is not decoded:
  its fourth token is no timestamp. \<^verbatim>\<open>L1_SAT1_TILE42_20241111\<close> is decoded, its
  fourth token being read as the first of January 2024, 01:01, and the result encodes
  to another string than the input followed by \<^verbatim>\<open>_0\<close>.
\<close>

theorem from_str_default_tag_counterexample:
  "str_split ''a_b_c_d'' ''_'' = Inr [''a'', ''b'', ''c'', ''d'']
 \<and> from_str NormalizedSceneId ''a_b_c_d'' ''_'' = Inl ValueError
 \<and> str_split ''L1_SAT1_TILE42_20241111'' ''_'' = Inr [''L1'', ''SAT1'', ''TILE42'', ''20241111'']
 \<and> map_sum id py_str (from_str NormalizedSceneId ''L1_SAT1_TILE42_20241111'' ''_'')
     = Inr ''L1_SAT1_TILE42_202401010101_0''
 \<and> ''L1_SAT1_TILE42_202401010101_0'' \<noteq> ''L1_SAT1_TILE42_20241111'' @ ''_0''"
  by code_simp

lemma dict_update_keys:
  "fst ` set (dict_update data kwargs) = fst ` set data \<union> fst ` set kwargs"
proof (induction kwargs arbitrary: data)
  case Nil
  show ?case by (simp add: dict_update_def)
next
  case (Cons kv kwargs)
  obtain k v where kv: "kv = (k, v)" by (cases kv)
  have "dict_update data (kv # kwargs) = dict_update (AList.update k v data) kwargs"
    by (simp add: dict_update_def kv)
  then have "fst ` set (dict_update data (kv # kwargs))
               = ({k} \<union> fst ` set data) \<union> fst ` set kwargs"
    by (simp only: Cons.IH dom_update)
  then show ?case by (simp add: kv)
qed

text \<open>
  Claim C6. \<^verbatim>\<open>copy_with\<close> with a keyword that is not a field of the identity's tuple
  type: the keyword ends up in the dictionary given to the constructor, which raises
  \<^verbatim>\<open>TypeError\<close> (the spec's UnknownFieldError), whatever the other keywords are.
\<close>

theorem copy_with_unknown_field:
  assumes "\<exists>key \<in> set (map fst kwargs). key \<notin> set (nt_fields (tuple_type (cls self)))"
  shows "copy_with self kwargs = Inl TypeError"
proof -
  from assms obtain key where "key \<in> fst ` set kwargs"
    and "key \<notin> set (nt_fields (tuple_type (cls self)))"
    by auto
  then have "\<exists>key \<in> set (map fst (dict_update (asdict self) kwargs)).
               key \<notin> set (nt_fields (tuple_type (cls self)))"
    using dict_update_keys[of "asdict self" kwargs] by auto
  then show ?thesis
    by (simp add: copy_with_def StringableTuple_init_def namedtuple_new_def)
qed

theorem copy_with_unknown_field_witness:
  "copy_with \<lparr>cls = NormalizedSceneId,
              params = [Str ''L1'', Str ''SAT1'', Str ''TILE42'',
                        DateTime \<lparr>year = 2024, month = 1, day = 1, hour = 12, minute = 0,
                                  second = 0, microsecond = 0\<rparr>, Str ''0'']\<rparr>
     [(''bogus'', Str ''x'')] = Inl TypeError"
  by (rule copy_with_unknown_field) (simp add: sceneid_params_def)

lemma length5:
  "length xs = 5 \<Longrightarrow> \<exists>a b c d e. xs = [a, b, c, d, e]"
  by (auto simp: length_Suc_conv eval_nat_numeral)

text \<open>
  Claim C8. \<^verbatim>\<open>copy_with(tag=t)\<close> on a \<^verbatim>\<open>NormalizedSceneId\<close> returns a new identity
  of the same class whose fields are those of the original with the last one, the tag,
  replaced: its encoded string is the original's first four tokens followed by \<open>t\<close>.
  The original is an argument that the function only reads (\<^verbatim>\<open>_asdict\<close> builds a
  fresh dictionary); it is the same value after the call.
\<close>

theorem copy_with_tag:
  assumes "cls self = NormalizedSceneId" and "well_formed self"
  shows "\<exists>new. copy_with self [(''tag'', Str t)] = Inr new \<and>
           cls new = NormalizedSceneId \<and>
           params new = (params self)[4 := Str t] \<and>
           str_tuple new = take 4 (str_tuple self) @ [t] \<and>
           py_str new = str_join ''_'' (take 4 (str_tuple self) @ [t])"
proof -
  from assms have "length (params self) = 5"
    by (simp add: well_formed_def sceneid_params_def)
  then obtain a b c d e where p: "params self = [a, b, c, d, e]"
    using length5 by blast
  have "copy_with self [(''tag'', Str t)] =
          Inr \<lparr>cls = NormalizedSceneId, params = [a, b, c, d, Str t]\<rparr>"
    using assms(1)
    by (simp add: copy_with_def asdict_def dict_update_def p sceneid_params_def
        StringableTuple_init_def namedtuple_new_def default_for_def)
  then show ?thesis
    by (simp add: p str_tuple_def py_str_def)
qed

theorem copy_with_tag_witness:
  "\<exists>new. copy_with \<lparr>cls = NormalizedSceneId,
              params = [Str ''L1'', Str ''SAT1'', Str ''TILE42'',
                        DateTime \<lparr>year = 2024, month = 1, day = 1, hour = 12, minute = 0,
                                  second = 0, microsecond = 0\<rparr>, Str ''0'']\<rparr>
            [(''tag'', Str ''2'')] = Inr new \<and>
     params new = [Str ''L1'', Str ''SAT1'', Str ''TILE42'',
                        DateTime \<lparr>year = 2024, month = 1, day = 1, hour = 12, minute = 0,
                                  second = 0, microsecond = 0\<rparr>, Str ''2''] \<and>
     py_str new = ''L1_SAT1_TILE42_202401011200_2''"
proof -
  let ?x = "\<lparr>cls = NormalizedSceneId,
              params = [Str ''L1'', Str ''SAT1'', Str ''TILE42'',
                        DateTime \<lparr>year = 2024, month = 1, day = 1, hour = 12, minute = 0,
                                  second = 0, microsecond = 0\<rparr>, Str ''0'']\<rparr>"
  have 1: "cls ?x = NormalizedSceneId" by simp
  have 2: "well_formed ?x" by (simp add: well_formed_def sceneid_params_def)
  have 3: "str_join ''_'' (take 4 (str_tuple ?x) @ [''2'']) = ''L1_SAT1_TILE42_202401011200_2''"
    by code_simp
  from copy_with_tag[OF 1 2, of "''2''", unfolded 3] show ?thesis
    by auto
qed

subsection \<open>Paths and order\<close>

lemma example_scene_decoded:
  "from_str NormalizedSceneId ''L1_SAT1_TILE42_202401011200_0'' ''_'' =
     Inr \<lparr>cls = NormalizedSceneId,
          params = [Str ''L1'', Str ''SAT1'', Str ''TILE42'',
                    DateTime \<lparr>year = 2024, month = 1, day = 1, hour = 12, minute = 0,
                              second = 0, microsecond = 0\<rparr>, Str ''0'']\<rparr>"
proof -
  have 1: "str_split ''L1_SAT1_TILE42_202401011200_0'' ''_''
             = Inr [''L1'', ''SAT1'', ''TILE42'', ''202401011200'', ''0'']"
    by code_simp
  have 2: "strptime ''202401011200''
             = Inr \<lparr>year = 2024, month = 1, day = 1, hour = 12, minute = 0,
                    second = 0, microsecond = 0\<rparr>"
    by code_simp
  show ?thesis
    by (simp only: from_str_scene5[OF 1] 2 sum.case)
qed

lemma example_scene_str_tuple:
  "str_tuple \<lparr>cls = NormalizedSceneId,
          params = [Str ''L1'', Str ''SAT1'', Str ''TILE42'',
                    DateTime \<lparr>year = 2024, month = 1, day = 1, hour = 12, minute = 0,
                              second = 0, microsecond = 0\<rparr>, Str ''0'']\<rparr>
     = [''L1'', ''SAT1'', ''TILE42'', ''202401011200'', ''0'']"
proof -
  have "strftime \<lparr>year = 2024, month = 1, day = 1, hour = 12, minute = 0,
                              second = 0, microsecond = 0\<rparr> = ''202401011200''"
    by (simp add: strftime_def decimal_lt10000 zero_pad_2 digit_char_def)
  then show ?thesis
    unfolding str_tuple_def by (simp only: StringableTuple.simps list.map tostr.simps)
qed

text \<open>
  Claim C2, as the code has it. For the identity decoded from
  \<^verbatim>\<open>L1_SAT1_TILE42_202401011200_0\<close>, \<^verbatim>\<open>dir_path()\<close> is
  \<^verbatim>\<open>L1/SAT1/TILE42/202401011200/0\<close>: all five converted fields joined by \<^verbatim>\<open>/\<close>, the
  tag included. \<^verbatim>\<open>metadata_path()\<close> is that directory followed by
  \<^verbatim>\<open>/L1_SAT1_TILE42_202401011200_0_metadata.json\<close>, and \<^verbatim>\<open>band_path('nir')\<close> is the
  same prefix followed by \<^verbatim>\<open>_nir.tif\<close>. For every identity the directory is the join
  of the converted fields, and the two file paths are the directory, a \<^verbatim>\<open>/\<close>, the
  encoded identity and the suffix.
\<close>

theorem scene_paths_example:
  "map_sum id (\<lambda>x. (dir_path x, metadata_path x, band_path x ''nir''))
     (from_str NormalizedSceneId ''L1_SAT1_TILE42_202401011200_0'' ''_'')
   = Inr (''L1/SAT1/TILE42/202401011200/0'',
          ''L1/SAT1/TILE42/202401011200/0'' @ ''/L1_SAT1_TILE42_202401011200_0_metadata.json'',
          ''L1/SAT1/TILE42/202401011200/0'' @ ''/L1_SAT1_TILE42_202401011200_0'' @ ''_nir.tif'')
 \<and> dir_path y = str_join ''/'' (str_tuple y)
 \<and> metadata_path y = dir_path y @ ''/'' @ py_str y @ ''_metadata.json''
 \<and> band_path y band = dir_path y @ ''/'' @ py_str y @ ''_'' @ band @ ''.tif''"
proof -
  have "map_sum id (\<lambda>x. (dir_path x, metadata_path x, band_path x ''nir''))
     (from_str NormalizedSceneId ''L1_SAT1_TILE42_202401011200_0'' ''_'')
   = Inr (''L1/SAT1/TILE42/202401011200/0'',
          ''L1/SAT1/TILE42/202401011200/0'' @ ''/L1_SAT1_TILE42_202401011200_0_metadata.json'',
          ''L1/SAT1/TILE42/202401011200/0'' @ ''/L1_SAT1_TILE42_202401011200_0'' @ ''_nir.tif'')"
    unfolding example_scene_decoded map_sum.simps id_apply dir_path_def metadata_path_def
      band_path_def scenepath_prefix_def py_str_def example_scene_str_tuple
    by simp
  moreover have "dir_path y = str_join ''/'' (str_tuple y)"
    and "metadata_path y = dir_path y @ ''/'' @ py_str y @ ''_metadata.json''"
    and "band_path y band = dir_path y @ ''/'' @ py_str y @ ''_'' @ band @ ''.tif''"
    by (simp_all add: dir_path_def metadata_path_def band_path_def scenepath_prefix_def)
  ultimately show ?thesis by (intro conjI)
qed

text \<open>
  The claim as stated fails: the directory of the example has five components, not the
  four the claim gives.
\<close>

theorem dir_path_counterexample:
  "map_sum id dir_path (from_str NormalizedSceneId ''L1_SAT1_TILE42_202401011200_0'' ''_'')
     = Inr ''L1/SAT1/TILE42/202401011200/0''
   \<and> ''L1/SAT1/TILE42/202401011200/0'' \<noteq> ''L1/SAT1/TILE42/202401011200''"
  unfolding example_scene_decoded map_sum.simps id_apply dir_path_def example_scene_str_tuple
  by simp

lemma list_less_same_length:
  fixes xs ys :: "'a::linorder list"
  assumes "length xs = length ys"
  shows "xs < ys \<longleftrightarrow> (\<exists>i<length xs. take i xs = take i ys \<and> xs ! i < ys ! i)"
  using assms
proof (induction xs ys rule: list_induct2)
  case Nil
  show ?case by simp
next
  case (Cons x xs y ys)
  show ?case (is "?L \<longleftrightarrow> ?R")
  proof
    assume ?L
    then consider "x < y" | "x = y" and "xs < ys" by auto
    then show ?R
    proof cases
      case 1
      then show ?thesis by (intro exI[of _ 0]) simp
    next
      case 2
      with Cons.IH obtain i where "i < length xs" and "take i xs = take i ys" and "xs ! i < ys ! i"
        by auto
      with 2 show ?thesis by (intro exI[of _ "Suc i"]) simp
    qed
  next
    assume ?R
    then obtain i where i: "i < length (x # xs)" "take i (x # xs) = take i (y # ys)"
      "(x # xs) ! i < (y # ys) ! i"
      by auto
    show ?L
    proof (cases i)
      case 0
      with i show ?thesis by simp
    next
      case (Suc j)
      with i have "x = y" and "j < length xs" and "take j xs = take j ys" and "xs ! j < ys ! j"
        by simp_all
      with Cons.IH show ?thesis by auto
    qed
  qed
qed

lemma str_join_inj:
  assumes "xs \<noteq> []" and "ys \<noteq> []"
    and "\<forall>s \<in> set xs \<union> set ys. CHR ''_'' \<notin> set s"
    and "str_join ''_'' xs = str_join ''_'' ys"
  shows "xs = ys"
proof -
  from assms(3) have x: "\<forall>s \<in> set xs. CHR ''_'' \<notin> set s" and y: "\<forall>s \<in> set ys. CHR ''_'' \<notin> set s"
    by blast+
  have "xs = split_from [CHR ''_''] [] (str_join [CHR ''_''] xs)"
    by (rule split_join[OF assms(1) x, symmetric])
  also have "\<dots> = split_from [CHR ''_''] [] (str_join [CHR ''_''] ys)"
    by (simp only: assms(4))
  also have "\<dots> = ys"
    by (rule split_join[OF assms(2) y])
  finally show ?thesis .
qed

text \<open>
  Claim C1, as the code has it. \<^verbatim>\<open>__lt__\<close> and \<^verbatim>\<open>__eq__\<close> compare the tuples of
  converted fields, not the joined strings. For two identities of the same class,
  \<open>A < B\<close> holds iff at some field \<open>A\<close>'s converted value is the smaller string and
  all fields before it are equal. \<open>A == B\<close> holds iff the encoded strings are equal,
  provided no converted field of either contains the separator.
\<close>

theorem py_order_by_fields:
  assumes "cls a = cls b" and "well_formed a" and "well_formed b"
  shows "(py_lt a b \<longleftrightarrow>
            (\<exists>i<length (str_tuple a).
               take i (str_tuple a) = take i (str_tuple b) \<and> str_tuple a ! i < str_tuple b ! i))
       \<and> ((\<forall>s \<in> set (str_tuple a) \<union> set (str_tuple b). CHR ''_'' \<notin> set s) \<longrightarrow>
            (py_eq a b \<longleftrightarrow> py_str a = py_str b))"
proof -
  from assms have len: "length (str_tuple a) = length (str_tuple b)"
    by (simp add: well_formed_def str_tuple_def)
  from assms(2) have ne: "str_tuple a \<noteq> []"
    by (cases "cls a") (auto simp: well_formed_def str_tuple_def scenesetid_params_def sceneid_params_def)
  with len have ne': "str_tuple b \<noteq> []" by auto
  have 1: "py_lt a b \<longleftrightarrow>
            (\<exists>i<length (str_tuple a).
               take i (str_tuple a) = take i (str_tuple b) \<and> str_tuple a ! i < str_tuple b ! i)"
    unfolding py_lt_def by (rule list_less_same_length[OF len])
  have 2: "py_eq a b \<longleftrightarrow> py_str a = py_str b"
    if "\<forall>s \<in> set (str_tuple a) \<union> set (str_tuple b). CHR ''_'' \<notin> set s"
    using str_join_inj[OF ne ne' that] by (auto simp: py_eq_def py_str_def)
  from 1 2 show ?thesis by blast
qed

lemma example_timestamp:
  "strftime \<lparr>year = 2024, month = 1, day = 1, hour = 12, minute = 0, second = 0, microsecond = 0\<rparr>
     = ''202401011200''"
  by (simp add: strftime_def decimal_lt10000 zero_pad_2 digit_char_def)

lemma example_sceneset_str_tuple:
  "str_tuple \<lparr>cls = NormalizedScenesetId,
              params = [Str u, Str v,
                        DateTime \<lparr>year = 2024, month = 1, day = 1, hour = 12, minute = 0,
                                  second = 0, microsecond = 0\<rparr>]\<rparr>
     = [u, v, ''202401011200'']"
  unfolding str_tuple_def
  by (simp only: StringableTuple.simps list.map tostr.simps example_timestamp)

text \<open>
  Two scene sets that differ in the satellite, \<^verbatim>\<open>SAT\<close> and \<^verbatim>\<open>SAT1\<close>.
\<close>

theorem py_order_by_fields_witness:
  "(py_lt \<lparr>cls = NormalizedScenesetId,
           params = [Str ''SAT'', Str ''T'',
                     DateTime \<lparr>year = 2024, month = 1, day = 1, hour = 12, minute = 0,
                               second = 0, microsecond = 0\<rparr>]\<rparr>
          \<lparr>cls = NormalizedScenesetId,
           params = [Str ''SAT1'', Str ''T'',
                     DateTime \<lparr>year = 2024, month = 1, day = 1, hour = 12, minute = 0,
                               second = 0, microsecond = 0\<rparr>]\<rparr>
    \<longleftrightarrow> (\<exists>i<3. take i [''SAT'', ''T'', ''202401011200''] = take i [''SAT1'', ''T'', ''202401011200'']
               \<and> [''SAT'', ''T'', ''202401011200''] ! i < [''SAT1'', ''T'', ''202401011200''] ! i))
 \<and> (py_eq \<lparr>cls = NormalizedScenesetId,
           params = [Str ''SAT'', Str ''T'',
                     DateTime \<lparr>year = 2024, month = 1, day = 1, hour = 12, minute = 0,
                               second = 0, microsecond = 0\<rparr>]\<rparr>
          \<lparr>cls = NormalizedScenesetId,
           params = [Str ''SAT1'', Str ''T'',
                     DateTime \<lparr>year = 2024, month = 1, day = 1, hour = 12, minute = 0,
                               second = 0, microsecond = 0\<rparr>]\<rparr>
    \<longleftrightarrow> str_join ''_'' [''SAT'', ''T'', ''202401011200'']
          = str_join ''_'' [''SAT1'', ''T'', ''202401011200''])"
proof -
  let ?t = "\<lparr>year = 2024, month = 1, day = 1, hour = 12, minute = 0, second = 0, microsecond = 0\<rparr>"
  let ?a = "\<lparr>cls = NormalizedScenesetId, params = [Str ''SAT'', Str ''T'', DateTime ?t]\<rparr>"
  let ?b = "\<lparr>cls = NormalizedScenesetId, params = [Str ''SAT1'', Str ''T'', DateTime ?t]\<rparr>"
  have c: "cls ?a = cls ?b" by simp
  have w: "well_formed ?a" "well_formed ?b"
    by (simp_all add: well_formed_def scenesetid_params_def)
  have l: "length [''SAT'', ''T'', ''202401011200''] = 3" by simp
  have n: "\<forall>s \<in> set [''SAT'', ''T'', ''202401011200''] \<union> set [''SAT1'', ''T'', ''202401011200''].
             CHR ''_'' \<notin> set s"
    by simp
  note th = py_order_by_fields[OF c w, unfolded py_str_def example_sceneset_str_tuple l]
  show ?thesis
    by (rule conjI[OF th[THEN conjunct1] mp[OF th[THEN conjunct2] n]])
qed

text \<open>
  The claim as stated fails twice. The scene set of \<^verbatim>\<open>SAT\<close> is smaller than that of
  \<^verbatim>\<open>SAT1\<close> (\<^verbatim>\<open>SAT\<close> is a beginning of \<^verbatim>\<open>SAT1\<close>), but its encoded string
  \<^verbatim>\<open>SAT_T_202401011200\<close> is not smaller than \<^verbatim>\<open>SAT1_T_202401011200\<close>: the separator
  comes after the digit \<^verbatim>\<open>1\<close> in character order. And the fields \<^verbatim>\<open>A_B\<close>, \<^verbatim>\<open>C\<close> and
  \<^verbatim>\<open>A\<close>, \<^verbatim>\<open>B_C\<close> give the same encoded string, but identities that are not equal.
\<close>

theorem py_order_counterexample:
  "py_lt \<lparr>cls = NormalizedScenesetId,
           params = [Str ''SAT'', Str ''T'',
                     DateTime \<lparr>year = 2024, month = 1, day = 1, hour = 12, minute = 0,
                               second = 0, microsecond = 0\<rparr>]\<rparr>
          \<lparr>cls = NormalizedScenesetId,
           params = [Str ''SAT1'', Str ''T'',
                     DateTime \<lparr>year = 2024, month = 1, day = 1, hour = 12, minute = 0,
                               second = 0, microsecond = 0\<rparr>]\<rparr>
 \<and> \<not> py_str \<lparr>cls = NormalizedScenesetId,
           params = [Str ''SAT'', Str ''T'',
                     DateTime \<lparr>year = 2024, month = 1, day = 1, hour = 12, minute = 0,
                               second = 0, microsecond = 0\<rparr>]\<rparr>
       < py_str \<lparr>cls = NormalizedScenesetId,
           params = [Str ''SAT1'', Str ''T'',
                     DateTime \<lparr>year = 2024, month = 1, day = 1, hour = 12, minute = 0,
                               second = 0, microsecond = 0\<rparr>]\<rparr>
 \<and> py_str \<lparr>cls = NormalizedScenesetId,
           params = [Str ''A_B'', Str ''C'',
                     DateTime \<lparr>year = 2024, month = 1, day = 1, hour = 12, minute = 0,
                               second = 0, microsecond = 0\<rparr>]\<rparr>
     = py_str \<lparr>cls = NormalizedScenesetId,
           params = [Str ''A'', Str ''B_C'',
                     DateTime \<lparr>year = 2024, month = 1, day = 1, hour = 12, minute = 0,
                               second = 0, microsecond = 0\<rparr>]\<rparr>
 \<and> \<not> py_eq \<lparr>cls = NormalizedScenesetId,
           params = [Str ''A_B'', Str ''C'',
                     DateTime \<lparr>year = 2024, month = 1, day = 1, hour = 12, minute = 0,
                               second = 0, microsecond = 0\<rparr>]\<rparr>
          \<lparr>cls = NormalizedScenesetId,
           params = [Str ''A'', Str ''B_C'',
                     DateTime \<lparr>year = 2024, month = 1, day = 1, hour = 12, minute = 0,
                               second = 0, microsecond = 0\<rparr>]\<rparr>"
  unfolding py_lt_def py_eq_def py_str_def example_sceneset_str_tuple
  by simp

section \<open>Scenes read from files: what the constructor and the property do\<close>

lemma get_metadata_resolved:
  "attr_metadata self = Some m \<Longrightarrow> get_metadata env loads self tr = ((Inr m, self), tr)"
  by (simp add: get_metadata_def cached_property_def)

lemma repeat_metadata_resolved:
  "attr_metadata self = Some m \<Longrightarrow>
   repeat_metadata n env loads self tr = ((replicate n (Inr m), self), tr)"
  by (induction n) (simp_all add: get_metadata_resolved)

lemma get_metadata_first:
  assumes "attr_metadata self = None" and "attr_metadata_path self = Some p"
    and "env_open env p = Inr content" and "loads content = Inr m"
  shows "get_metadata env loads self tr =
           ((Inr m, self\<lparr>attr_metadata := Some m\<rparr>), tr @ [Open p])"
  using assms
  by (simp add: get_metadata_def cached_property_def metadata_body_def open_file_def)

lemma get_metadata_unlocated:
  "attr_metadata self = None \<Longrightarrow> attr_metadata_path self = None \<Longrightarrow>
   get_metadata env loads self tr = ((Inl AttributeError, self), tr)"
  by (simp add: get_metadata_def cached_property_def metadata_body_def)

lemma repeat_metadata_unlocated:
  "attr_metadata self = None \<Longrightarrow> attr_metadata_path self = None \<Longrightarrow>
   repeat_metadata n env loads self tr = ((replicate n (Inl AttributeError), self), tr)"
  by (induction n) (simp_all add: get_metadata_unlocated)



text \<open>
  Claim C7. A scene built over a directory whose only match \<open>p\<close> is a file that opens
  and parses to \<open>m\<close>. The constructor opens no file (the number of \<open>Open\<close> events is what
  it was) and leaves the cache entry empty. After any number \<open>n + 1\<close> of accesses to
  \<^verbatim>\<open>metadata\<close>, every access has returned \<open>m\<close>, the entry holds \<open>m\<close>, and the trace has
  exactly one \<open>Open\<close> more than before the constructor, that of \<open>p\<close>: the first access
  opened and parsed the file (one call, \<^verbatim>\<open>json.load(open(...))\<close>), no later one did.
\<close>

theorem FilebasedScene_metadata_lazy_once:
  assumes "\<not> env_isfile env path" and "env_isdir env path"
    and "env_glob env (os_path_join path ''*_metadata.json'') = [p]"
    and "env_open env p = Inr content" and "json_loads content = Inr m"
  shows "\<exists>self tr0.
     FilebasedScene_init env path band_urls tr = (Inr self, tr0) \<and>
     attr_metadata self = None \<and> reads tr0 = reads tr \<and>
     (\<forall>n. \<exists>self' tr1.
        repeat_metadata (Suc n) env json_loads self tr0 =
          ((replicate (Suc n) (Inr m), self'), tr1) \<and>
        attr_metadata self' = Some m \<and> reads tr1 = reads tr + 1 \<and>
        filter is_Open tr1 = filter is_Open tr @ [Open p])"
proof -
  define self :: "'a FilebasedScene"
    where "self = \<lparr>attr_band_urls = band_urls, attr_metadata = None,
                    attr_metadata_path = Some p, attr_path = Some path\<rparr>"
  define tr0
    where "tr0 = tr @ [IsFile path, IsDir path, Glob (os_path_join path ''*_metadata.json'')]"
  have init: "FilebasedScene_init env path band_urls tr = (Inr self, tr0)"
    using assms(1-3)
    by (simp add: FilebasedScene_init_def os_path_isfile_def os_path_isdir_def glob_glob_def
        new_object_def self_def tr0_def)
  have r0: "reads tr0 = reads tr"
    by (simp add: tr0_def reads_def)
  have first: "get_metadata env json_loads self tr0 =
                 ((Inr m, self\<lparr>attr_metadata := Some m\<rparr>), tr0 @ [Open p])"
    using assms(4,5) by (intro get_metadata_first) (simp_all add: self_def)
  have rep: "repeat_metadata (Suc n) env json_loads self tr0 =
               ((replicate (Suc n) (Inr m), self\<lparr>attr_metadata := Some m\<rparr>), tr0 @ [Open p])"
    for n
    by (simp add: first repeat_metadata_resolved)
  have "reads (tr0 @ [Open p]) = reads tr + 1"
    and "filter is_Open (tr0 @ [Open p]) = filter is_Open tr @ [Open p]"
    by (simp_all add: reads_def tr0_def)
  with init r0 rep show ?thesis
    by (auto simp: self_def)
qed

theorem FilebasedScene_metadata_lazy_once_witness:
  "\<exists>self tr0.
     FilebasedScene_init
       (single_dir_env ''scene''
          [(''a_metadata.json'', ''{\"scene_id\": \"L1_SAT1_TILE42_202401011200_0\"}'')])
       ''scene'' None [] = (Inr self, tr0) \<and>
     attr_metadata self = None \<and> reads tr0 = reads [] \<and>
     (\<forall>n. \<exists>self' tr1.
        repeat_metadata (Suc n)
          (single_dir_env ''scene''
             [(''a_metadata.json'', ''{\"scene_id\": \"L1_SAT1_TILE42_202401011200_0\"}'')])
          example_loads self tr0 =
          ((replicate (Suc n) (Inr [(''scene_id'', ''L1_SAT1_TILE42_202401011200_0'')]), self'),
           tr1) \<and>
        attr_metadata self' = Some [(''scene_id'', ''L1_SAT1_TILE42_202401011200_0'')] \<and>
        reads tr1 = reads [] + 1 \<and>
        filter is_Open tr1 = filter is_Open [] @ [Open ''scene/a_metadata.json''])"
  by (rule FilebasedScene_metadata_lazy_once
        [where content = "''{\"scene_id\": \"L1_SAT1_TILE42_202401011200_0\"}''"])
     (simp_all add: single_dir_env_def os_path_join_def ends_with_def example_loads_def)

text \<open>
  Claim C10. A path that is neither a file nor a directory: the constructor raises
  nothing and returns an object without \<^verbatim>\<open>_metadata_path\<close>. On that object every
  access to \<^verbatim>\<open>metadata\<close> fails, with \<^verbatim>\<open>AttributeError\<close>, opens nothing and leaves the
  object as it was, so any number of accesses in a row all fail.
\<close>

theorem FilebasedScene_init_unlocated:
  assumes "\<not> env_isfile env path" and "\<not> env_isdir env path"
  shows "\<exists>self tr0.
     FilebasedScene_init env path band_urls tr = (Inr self, tr0) \<and>
     attr_metadata_path self = None \<and>
     (\<forall>n tr'. repeat_metadata n env json_loads self tr' =
                 ((replicate n (Inl AttributeError), self), tr'))"
proof -
  define self :: "'a FilebasedScene" where "self = new_object\<lparr>attr_band_urls := band_urls\<rparr>"
  have init: "FilebasedScene_init env path band_urls tr = (Inr self, tr @ [IsFile path, IsDir path])"
    using assms
    by (simp add: FilebasedScene_init_def os_path_isfile_def os_path_isdir_def self_def)
  have "attr_metadata self = None" and "attr_metadata_path self = None"
    by (simp_all add: self_def new_object_def)
  with init show ?thesis
    by (auto simp: repeat_metadata_unlocated)
qed

theorem FilebasedScene_init_unlocated_witness:
  "\<exists>self tr0.
     FilebasedScene_init (single_dir_env ''scene'' [(''a_metadata.json'', ''{}'')])
       ''elsewhere'' None [] = (Inr self, tr0) \<and>
     attr_metadata_path self = None \<and>
     (\<forall>n tr'. repeat_metadata n (single_dir_env ''scene'' [(''a_metadata.json'', ''{}'')])
                 example_loads self tr' =
                 ((replicate n (Inl AttributeError), self), tr'))"
  by (rule FilebasedScene_init_unlocated) (simp_all add: single_dir_env_def)

end
